theory Spec2Isabelle
  imports Main
begin

section \<open>JavaScript values\<close>

text \<open>
  A JavaScript string is a sequence of UTF-16 code units. The code units are modelled as
  natural numbers, so that a string holding a code unit above 255 (on which \<open>btoa\<close>
  throws) can be written down. \<open>lit\<close> turns a string literal of the source into
  that representation.
\<close>

type_synonym jsstring = "nat list"

definition lit :: "string \<Rightarrow> jsstring" where
  "lit s = map of_char s"

text \<open>
  The values the orders route handles without knowing their type: what the session
  stores under a key, and what a rejected remote call throws. \<open>JError m\<close> is any
  instance of \<open>Error\<close> (or of a subclass) with message \<open>m\<close>; its \<open>message\<close>
  and \<open>stack\<close> are not enumerable. \<open>JCyclic kvs\<close> is an object that has the
  properties \<open>kvs\<close> and one more property through which it reaches itself. Finite
  numbers are integers here; no claim depends on a fractional number.
\<close>

datatype jsval =
    JUndefined
  | JNull
  | JBool bool
  | JNum int
  | JNaN
  | JInfinity bool
  | JBigInt int
  | JStr jsstring
  | JSymbol jsstring
  | JFunction jsstring
  | JArr "jsval list"
  | JObj "(jsstring \<times> jsval) list"
  | JCyclic "(jsstring \<times> jsval) list"
  | JError jsstring

text \<open>\<open>!v\<close> is \<open>\<not> truthy v\<close>.\<close>

fun truthy :: "jsval \<Rightarrow> bool" where
  "truthy JUndefined = False"
| "truthy JNull = False"
| "truthy (JBool b) = b"
| "truthy (JNum n) = (n \<noteq> 0)"
| "truthy JNaN = False"
| "truthy (JInfinity negative) = True"
| "truthy (JBigInt n) = (n \<noteq> 0)"
| "truthy (JStr s) = (s \<noteq> [])"
| "truthy (JSymbol description) = True"
| "truthy (JFunction name) = True"
| "truthy (JArr vs) = True"
| "truthy (JObj kvs) = True"
| "truthy (JCyclic kvs) = True"
| "truthy (JError m) = True"

text \<open>
  \<open>v?.k\<close> for a data property \<open>k\<close>: \<open>undefined\<close> on \<open>null\<close> and
  \<open>undefined\<close>, the stored value on an object that has the property, and
  \<open>undefined\<close> on everything else (a primitive, an array, a function or an error
  object has no property named \<open>accessToken\<close>, the only name this is used with).
\<close>

fun opt_chain :: "jsval \<Rightarrow> jsstring \<Rightarrow> jsval" where
  "opt_chain (JObj kvs) k = (case map_of kvs k of None \<Rightarrow> JUndefined | Some v \<Rightarrow> v)"
| "opt_chain (JCyclic kvs) k = (case map_of kvs k of None \<Rightarrow> JUndefined | Some v \<Rightarrow> v)"
| "opt_chain v k = JUndefined"

fun instanceof_Error :: "jsval \<Rightarrow> bool" where
  "instanceof_Error (JError m) = True"
| "instanceof_Error v = False"

section \<open>JSON\<close>

text \<open>
  The value a JSON text denotes, and \<open>JSON.stringify\<close> as far as it decides what the
  text holds. \<open>to_json\<close> is the serialisation of one value: \<open>Inr None\<close> where
  \<open>JSON.stringify\<close> yields \<open>undefined\<close> (the property is then left out of an
  object and written \<open>null\<close> in an array), \<open>Inl\<close> where it throws its
  \<open>TypeError\<close> (on a BigInt and on a cyclic object). \<open>NaN\<close> and the infinities
  are written \<open>null\<close>; an \<open>Error\<close> has no enumerable property and is written
  \<open>{}\<close>.
\<close>

datatype json_value =
    JsonNull
  | JsonBool bool
  | JsonNumber int
  | JsonString jsstring
  | JsonArray "json_value list"
  | JsonObject "(jsstring \<times> json_value) list"

datatype stringify_error = Stringify_TypeError

fun to_json :: "jsval \<Rightarrow> stringify_error + json_value option"
  and to_json_properties :: "(jsstring \<times> jsval) list \<Rightarrow> stringify_error + (jsstring \<times> json_value) list"
  and to_json_elements :: "jsval list \<Rightarrow> stringify_error + json_value list" where
  "to_json JUndefined = Inr None"
| "to_json JNull = Inr (Some JsonNull)"
| "to_json (JBool b) = Inr (Some (JsonBool b))"
| "to_json (JNum n) = Inr (Some (JsonNumber n))"
| "to_json JNaN = Inr (Some JsonNull)"
| "to_json (JInfinity negative) = Inr (Some JsonNull)"
| "to_json (JBigInt n) = Inl Stringify_TypeError"
| "to_json (JStr s) = Inr (Some (JsonString s))"
| "to_json (JSymbol description) = Inr None"
| "to_json (JFunction name) = Inr None"
| "to_json (JArr vs) =
     (case to_json_elements vs of Inl e \<Rightarrow> Inl e | Inr js \<Rightarrow> Inr (Some (JsonArray js)))"
| "to_json (JObj kvs) =
     (case to_json_properties kvs of Inl e \<Rightarrow> Inl e | Inr ps \<Rightarrow> Inr (Some (JsonObject ps)))"
| "to_json (JCyclic kvs) = Inl Stringify_TypeError"
| "to_json (JError m) = Inr (Some (JsonObject []))"
| "to_json_properties [] = Inr []"
| "to_json_properties ((k, v) # rest) =
     (case to_json v of
        Inl e \<Rightarrow> Inl e
      | Inr j \<Rightarrow>
          (case to_json_properties rest of
             Inl e \<Rightarrow> Inl e
           | Inr ps \<Rightarrow> Inr ((case j of None \<Rightarrow> [] | Some x \<Rightarrow> [(k, x)]) @ ps)))"
| "to_json_elements [] = Inr []"
| "to_json_elements (v # rest) =
     (case to_json v of
        Inl e \<Rightarrow> Inl e
      | Inr j \<Rightarrow>
          (case to_json_elements rest of
             Inl e \<Rightarrow> Inl e
           | Inr js \<Rightarrow> Inr ((case j of None \<Rightarrow> JsonNull | Some x \<Rightarrow> x) # js)))"



section \<open>GraphQL documents\<close>

text \<open>
  The documents are template strings in the source. They are kept here as the selection
  structure the text spells out: a field with its arguments and its sub-selection, or a
  fragment spread. An argument is its name and the text of its value.
\<close>

datatype selection =
    Field jsstring "(jsstring \<times> jsstring) list" "selection list"
  | Spread jsstring

record fragment =
  fragment_name :: jsstring
  on_type :: jsstring
  selections :: "selection list"

record operation =
  operation_name :: jsstring
  variable_definitions :: "(jsstring \<times> jsstring) list"
  directives :: "(jsstring \<times> (jsstring \<times> jsstring) list) list"
  operation_selections :: "selection list"

record document =
  fragments :: "fragment list"
  operations :: "operation list"

definition leaf :: "string \<Rightarrow> selection" where
  "leaf name = Field (lit name) [] []"

definition ORDER_ITEM_FRAGMENT :: fragment where
  "ORDER_ITEM_FRAGMENT =
     \<lparr>fragment_name = lit ''OrderItem'', on_type = lit ''Order'',
      selections =
        [Field (lit ''currentTotalPrice'') [] [leaf ''amount'', leaf ''currencyCode''],
         leaf ''financialStatus'',
         leaf ''fulfillmentStatus'',
         leaf ''id'',
         Field (lit ''lineItems'') [(lit ''first'', lit ''10'')]
           [Field (lit ''nodes'') []
              [leaf ''title'',
               Field (lit ''variant'') []
                 [Field (lit ''image'') []
                    [leaf ''url'', leaf ''altText'', leaf ''height'', leaf ''width'']]]],
         leaf ''orderNumber'',
         leaf ''customerUrl'',
         leaf ''statusUrl'',
         leaf ''processedAt'']\<rparr>"

definition CustomerOrders :: fragment where
  "CustomerOrders =
     \<lparr>fragment_name = lit ''CustomerOrders'', on_type = lit ''Customer'',
      selections =
        [leaf ''numberOfOrders'',
         Field (lit ''orders'')
           [(lit ''sortKey'', lit ''PROCESSED_AT''),
            (lit ''reverse'', lit ''true''),
            (lit ''first'', lit ''$first''),
            (lit ''last'', lit ''$last''),
            (lit ''before'', lit ''$startCursor''),
            (lit ''after'', lit ''$endCursor'')]
           [Field (lit ''nodes'') [] [Spread (lit ''OrderItem'')],
            Field (lit ''pageInfo'') []
              [leaf ''hasPreviousPage'',
               leaf ''hasNextPage'',
               leaf ''hasNextPage'',
               leaf ''endCursor'']]]\<rparr>"

text \<open>
  \<open>CUSTOMER_FRAGMENT\<close> is the text of the \<open>CustomerOrders\<close> fragment followed by
  the interpolated \<open>ORDER_ITEM_FRAGMENT\<close>.
\<close>

definition CUSTOMER_FRAGMENT :: "fragment list" where
  "CUSTOMER_FRAGMENT = [CustomerOrders, ORDER_ITEM_FRAGMENT]"

definition CUSTOMER_ORDERS_QUERY :: document where
  "CUSTOMER_ORDERS_QUERY =
     \<lparr>fragments = CUSTOMER_FRAGMENT,
      operations =
        [\<lparr>operation_name = lit ''CustomerOrders'',
          variable_definitions =
            [(lit ''country'', lit ''CountryCode''),
             (lit ''customerAccessToken'', lit ''String!''),
             (lit ''endCursor'', lit ''String''),
             (lit ''first'', lit ''Int''),
             (lit ''language'', lit ''LanguageCode''),
             (lit ''last'', lit ''Int''),
             (lit ''startCursor'', lit ''String'')],
          directives =
            [(lit ''inContext'',
              [(lit ''country'', lit ''$country''), (lit ''language'', lit ''$language'')])],
          operation_selections =
            [Field (lit ''customer'')
               [(lit ''customerAccessToken'', lit ''$customerAccessToken'')]
               [Spread (lit ''CustomerOrders'')]]\<rparr>]\<rparr>"

section \<open>The orders loader\<close>

text \<open>
  A JavaScript object used as a bag of named values (the query variables) is a map from
  property names to values; \<open>{...a, ...b}\<close> is \<open>a ++ b\<close>, where the right operand
  wins on a shared name.
\<close>

type_synonym variables = "jsstring \<rightharpoonup> jsval"

datatype cache_strategy = CacheNone | CacheShort | CacheLong

record query_options =
  variables :: variables
  cache :: cache_strategy

text \<open>One call \<open>storefront.query(document, options)\<close>.\<close>

type_synonym query_call = "document \<times> query_options"

record 'customer query_data =
  customer :: "'customer option"

record storefront_i18n =
  country :: jsstring
  language :: jsstring

text \<open>
  The storefront client: \<open>query\<close> answers a call with the data of the response
  (\<open>Inr\<close>) or with the value the rejected promise throws (\<open>Inl\<close>).
\<close>

record 'customer storefront =
  query :: "query_call \<Rightarrow> jsval + 'customer query_data"
  i18n :: storefront_i18n

text \<open>
  The request-scoped context. \<open>session\<close> maps a key to what is stored under it;
  \<open>session.get\<close> answers \<open>undefined\<close> for a key that is not stored.
\<close>

record ('customer, 'i18n) app_context =
  session :: "jsstring \<rightharpoonup> jsval"
  storefront :: "'customer storefront"
  context_i18n :: "'i18n"

definition session_get :: "(jsstring \<rightharpoonup> jsval) \<Rightarrow> jsstring \<Rightarrow> jsval" where
  "session_get s k = (case s k of None \<Rightarrow> JUndefined | Some v \<Rightarrow> v)"

text \<open>
  \<open>json(data, {status})\<close> is handed \<open>{customer}\<close> or \<open>{error}\<close> and builds a
  response whose body is \<open>JSON.stringify(data)\<close>; it throws what
  \<open>JSON.stringify\<close> throws. The customer is the data of a JSON response of the
  storefront API and is kept as it is. \<open>json(data)\<close> without a status answers 200.
  What the loader returns is such a response or \<open>redirect(url)\<close>.
\<close>

datatype 'customer json_data = Customer_data 'customer | Error_data jsval

datatype 'customer json_body = Customer_body 'customer | Serialized json_value

datatype 'customer response =
    Redirect jsstring
  | Json "'customer json_body" nat

definition redirect :: "jsstring \<Rightarrow> 'customer response" where
  "redirect url = Redirect url"

definition json :: "'customer json_data \<Rightarrow> nat \<Rightarrow> stringify_error + 'customer response" where
  "json data status =
     (case data of
        Customer_data c \<Rightarrow> Inr (Json (Customer_body c) status)
      | Error_data v \<Rightarrow>
          (case to_json_properties [(lit ''error'', v)] of
             Inl thrown \<Rightarrow> Inl thrown
           | Inr properties \<Rightarrow> Inr (Json (Serialized (JsonObject properties)) status)))"

text \<open>
  The \<open>catch\<close> block of the loader, lines 49 to 54; \<open>error_message\<close> reads
  \<open>error.message\<close>. What \<open>json\<close> throws there is not caught.
\<close>

fun error_message :: "jsval \<Rightarrow> jsval" where
  "error_message (JError message) = JStr message"
| "error_message v = JUndefined"

definition loader_catch :: "jsval \<Rightarrow> stringify_error + 'customer response" where
  "loader_catch error =
     (if instanceof_Error error
      then json (Error_data (error_message error)) 400
      else json (Error_data error) 400)"

text \<open>The second argument of \<open>storefront.query\<close>, lines 35 to 41.\<close>

definition loader_query_options ::
  "jsval \<Rightarrow> storefront_i18n \<Rightarrow> variables \<Rightarrow> query_options" where
  "loader_query_options accessToken locale paginationVariables =
     \<lparr>variables =
        [lit ''customerAccessToken'' \<mapsto> accessToken,
         lit ''country'' \<mapsto> JStr (country locale),
         lit ''language'' \<mapsto> JStr (language locale)] ++ paginationVariables,
      cache = CacheNone\<rparr>"

text \<open>
  The loader. \<open>localizePath\<close> (of \<open>~/utils\<close>) and \<open>getPaginationVariables\<close> (of
  the SDK, called with the request and the option \<open>pageBy\<close>) are defined elsewhere and
  are parameters; both return a value on every input. The result is the response
  (\<open>Inr\<close>), or what the loader throws (\<open>Inl\<close>), together with the calls made to
  \<open>storefront.query\<close>, in order. Past the gate of
  line 25 the stored value is an object, so \<open>customerAccessToken.accessToken\<close> of
  line 36 is the value the gate read.
\<close>

definition loader ::
  "(jsstring \<Rightarrow> 'i18n \<Rightarrow> jsstring) \<Rightarrow> ('request \<Rightarrow> nat \<Rightarrow> variables) \<Rightarrow>
   'request \<Rightarrow> ('customer, 'i18n) app_context \<Rightarrow>
   (stringify_error + 'customer response) \<times> query_call list" where
  "loader localizePath getPaginationVariables request context =
     (let customerAccessToken = session_get (session context) (lit ''customerAccessToken'') in
      if \<not> truthy (opt_chain customerAccessToken (lit ''accessToken''))
      then (Inr (redirect (localizePath (lit ''/account/login'') (context_i18n context))), [])
      else
        let paginationVariables = getPaginationVariables request 20;
            call = (CUSTOMER_ORDERS_QUERY,
                    loader_query_options (opt_chain customerAccessToken (lit ''accessToken''))
                      (i18n (storefront context)) paginationVariables)
        in (case query (storefront context) call of
              Inl error \<Rightarrow> (loader_catch error, [call])
            | Inr data \<Rightarrow>
                (case customer data of
                   None \<Rightarrow> (loader_catch (JError (lit ''Customer not found'')), [call])
                 | Some c \<Rightarrow> (json (Customer_data c) 200, [call]))))"

text \<open>
  A request passes the gate of line 25 when the stored token object has a truthy
  \<open>accessToken\<close>; \<open>orders_query_call\<close> is the call the loader then makes.
\<close>

definition has_access_token :: "('customer, 'i18n) app_context \<Rightarrow> bool" where
  "has_access_token context =
     truthy (opt_chain (session_get (session context) (lit ''customerAccessToken''))
       (lit ''accessToken''))"

definition orders_query_call ::
  "('request \<Rightarrow> nat \<Rightarrow> variables) \<Rightarrow> 'request \<Rightarrow> ('customer, 'i18n) app_context \<Rightarrow>
   query_call" where
  "orders_query_call getPaginationVariables request context =
     (CUSTOMER_ORDERS_QUERY,
      loader_query_options
        (opt_chain (session_get (session context) (lit ''customerAccessToken''))
           (lit ''accessToken''))
        (i18n (storefront context)) (getPaginationVariables request 20))"

section \<open>Selections of a document\<close>

text \<open>
  The sub-selection of the first field of a given name, and the names of the fields a
  selection requests, in the order of the text.
\<close>

fun select_field :: "jsstring \<Rightarrow> selection list \<Rightarrow> selection list" where
  "select_field name [] = []"
| "select_field name (Field f args sub # rest) =
     (if f = name then sub else select_field name rest)"
| "select_field name (Spread f # rest) = select_field name rest"

fun field_names :: "selection list \<Rightarrow> jsstring list" where
  "field_names [] = []"
| "field_names (Field f args sub # rest) = f # field_names rest"
| "field_names (Spread f # rest) = field_names rest"

definition orders_pageInfo_fields :: "jsstring list" where
  "orders_pageInfo_fields =
     field_names (select_field (lit ''pageInfo'')
       (select_field (lit ''orders'') (selections CustomerOrders)))"

section \<open>The data of the views\<close>

record money =
  amount :: jsstring
  currencyCode :: jsstring

record 'node node_list =
  nodes :: "'node list"

record ('node, 'info) connection = "'node node_list" +
  pageInfo :: "'info"

text \<open>An order as \<open>ORDER_ITEM_FRAGMENT\<close> selects it.\<close>

record line_item_image =
  line_image_url :: jsstring
  line_image_altText :: "jsstring option"
  line_image_height :: "int option"
  line_image_width :: "int option"

record order_line_item =
  line_title :: jsstring
  line_variant_image :: "line_item_image option"

record order_item =
  currentTotalPrice :: money
  financialStatus :: "jsstring option"
  fulfillmentStatus :: jsstring
  order_id :: jsstring
  lineItems :: "order_line_item node_list"
  orderNumber :: int
  customerUrl :: "jsstring option"
  statusUrl :: jsstring
  processedAt :: jsstring

text \<open>
  The page info of the orders connection as \<open>CUSTOMER_FRAGMENT\<close> selects it, and the
  customer of that fragment.
\<close>

record orders_page_info =
  hasPreviousPage :: bool
  hasNextPage :: bool
  endCursor :: "jsstring option"

type_synonym orders_connection = "(order_item, orders_page_info) connection"

record customer_orders =
  numberOfOrders :: jsstring
  orders :: orders_connection

text \<open>A product as \<open>PRODUCT_ITEM_FRAGMENT\<close> selects it.\<close>

record selected_option =
  option_name :: jsstring
  option_value :: jsstring

record product_variant =
  selectedOptions :: "selected_option list"

record featured_image =
  image_id :: "jsstring option"
  image_altText :: "jsstring option"
  image_url :: jsstring
  image_width :: "int option"
  image_height :: "int option"

record price_range =
  minVariantPrice :: money
  maxVariantPrice :: money

record product_item =
  product_id :: jsstring
  handle :: jsstring
  product_title :: jsstring
  featuredImage :: "featured_image option"
  priceRange :: price_range
  variants :: "product_variant node_list"

section \<open>React elements\<close>

datatype loading = eager | lazy

record product_item_props =
  item_key :: jsstring
  product :: product_item
  item_loading :: "loading option"

record image_props =
  alt :: jsstring
  aspectRatio :: jsstring
  image_data :: featured_image
  image_loading :: "loading option"
  sizes :: jsstring

record link_props =
  link_className :: jsstring
  link_key :: jsstring
  prefetch :: jsstring
  link_to :: jsstring

text \<open>
  What a component returns: a tree whose nodes are text, host elements (tag, attributes,
  children) and elements of other components, which hold their props and are not yet
  rendered. An element with a render function as its child (\<open>Pagination\<close>,
  \<open>PaginatedResourceSection\<close>) holds its other props; the render function is a
  function of this theory, named after the component that passes it.
\<close>

datatype element =
    Text jsstring
  | Number int
  | Host jsstring "(jsstring \<times> jsstring) list" "element list"
  | Fragment "element list"
  | LocalizedLink jsstring "element list"
  | Money money
  | OrdersTable_element orders_connection
  | EmptyOrders_element
  | OrderItem_element jsstring order_item
  | Pagination_element orders_connection
  | PreviousLink "element list"
  | NextLink "element list"
  | Link link_props "element list"
  | Image image_props
  | ProductItem_element product_item_props
  | PaginatedResourceSection_element "(product_item, unit) connection" jsstring

section \<open>Built-ins of the platform\<close>

text \<open>
  \<open>btoa\<close> as the HTML standard defines it: it throws an
  \<open>InvalidCharacterError\<close> when the string holds a code unit above 255, and
  otherwise encodes the code units as bytes in base64 with padding.
\<close>

definition base64_alphabet :: jsstring where
  "base64_alphabet =
     lit ''ABCDEFGHIJKLMNOPQRSTUVWXYZabcdefghijklmnopqrstuvwxyz0123456789+/''"

definition base64_digit :: "nat \<Rightarrow> nat" where
  "base64_digit n = base64_alphabet ! (n mod 64)"

definition base64_pad :: nat where
  "base64_pad = of_char CHR ''=''"

fun base64_encode :: "nat list \<Rightarrow> jsstring" where
  "base64_encode [] = []"
| "base64_encode [a] =
     [base64_digit (a div 4), base64_digit ((a mod 4) * 16), base64_pad, base64_pad]"
| "base64_encode [a, b] =
     [base64_digit (a div 4), base64_digit ((a mod 4) * 16 + b div 16),
      base64_digit ((b mod 16) * 4), base64_pad]"
| "base64_encode (a # b # c # rest) =
     [base64_digit (a div 4), base64_digit ((a mod 4) * 16 + b div 16),
      base64_digit ((b mod 16) * 4 + c div 64), base64_digit (c mod 64)]
     @ base64_encode rest"

datatype render_error = TypeError | InvalidCharacterError

definition btoa :: "jsstring \<Rightarrow> render_error + jsstring" where
  "btoa s = (if \<exists>c \<in> set s. 255 < c then Inl InvalidCharacterError
             else Inr (base64_encode s))"

text \<open>\<open>xs[0]\<close>: \<open>undefined\<close> on an empty array.\<close>

definition first_element :: "'a list \<Rightarrow> 'a option" where
  "first_element xs = (case xs of [] \<Rightarrow> None | x # rest \<Rightarrow> Some x)"

section \<open>The orders view\<close>

text \<open>
  The code unit of the arrow that ends the two link labels of the source.
\<close>

definition rightwards_arrow :: nat where
  "rightwards_arrow = 8594"

definition className :: "string \<Rightarrow> (jsstring \<times> jsstring) list" where
  "className c = [(lit ''className'', lit c)]"

definition EmptyOrders :: element where
  "EmptyOrders =
     Host (lit ''div'') []
       [Host (lit ''p'') [] [Text (lit ''You haven'' @ [39] @ lit ''t placed any orders yet.'')],
        Host (lit ''br'') [] [],
        Host (lit ''p'') []
          [LocalizedLink (lit ''/collections'')
             [Text (lit ''Start Shopping '' @ [rightwards_arrow])]]]"

text \<open>
  \<open>OrderItem\<close>. \<open>toDateString\<close> stands for
  \<open>new Date(s).toDateString()\<close>. A child that is \<open>null\<close> renders nothing.
\<close>

definition text_child :: "jsstring option \<Rightarrow> element list" where
  "text_child s = (case s of None \<Rightarrow> [] | Some v \<Rightarrow> [Text v])"

definition OrderItem :: "(jsstring \<Rightarrow> jsstring) \<Rightarrow> order_item \<Rightarrow> render_error + element" where
  "OrderItem toDateString order =
     (case btoa (order_id order) of
        Inl thrown \<Rightarrow> Inl thrown
      | Inr encoded \<Rightarrow>
          Inr (Fragment
            [Host (lit ''fieldset'') []
               [LocalizedLink (lit ''/account/orders/'' @ order_id order)
                  [Host (lit ''strong'') [] [Text (lit ''#''), Number (orderNumber order)]],
                Host (lit ''p'') [] [Text (toDateString (processedAt order))],
                Host (lit ''p'') [] (text_child (financialStatus order)),
                Host (lit ''p'') [] [Text (fulfillmentStatus order)],
                Money (currentTotalPrice order),
                LocalizedLink (lit ''/account/orders/'' @ encoded)
                  [Text (lit ''View Order '' @ [rightwards_arrow])]],
             Host (lit ''br'') [] []]))"

text \<open>
  What \<open>Pagination\<close> hands to its render function, as far as \<open>OrdersTable\<close>
  reads it (\<open>PreviousLink\<close> and \<open>NextLink\<close> are the element constructors), and
  the render function \<open>OrdersTable\<close> passes, lines 78 to 100. \<open>t\<close> is the
  translation function of \<open>useTranslation\<close>.
\<close>

record pagination_render =
  render_nodes :: "order_item list"
  isLoading :: bool

definition OrdersTable_children :: "(jsstring \<Rightarrow> jsstring) \<Rightarrow> pagination_render \<Rightarrow> element" where
  "OrdersTable_children t r =
     Fragment
       ([PreviousLink
           [if isLoading r
            then Host (lit ''span'') [] [Text (t (lit ''layout.pagination.loading''))]
            else Host (lit ''span'') [] [Text (t (lit ''layout.pagination.previous''))]]]
        @ map (\<lambda>order. OrderItem_element (order_id order) order) (render_nodes r)
        @ [NextLink
             [if isLoading r
              then Host (lit ''span'') [] [Text (t (lit ''layout.pagination.loading''))]
              else Host (lit ''span'') [] [Text (t (lit ''layout.pagination.next''))]]])"

definition OrdersTable :: "orders_connection \<Rightarrow> element" where
  "OrdersTable orders_prop =
     Host (lit ''div'') (className ''acccount-orders'')
       [if length (nodes orders_prop) \<noteq> 0
        then Pagination_element orders_prop
        else EmptyOrders_element]"

text \<open>
  \<open>Orders\<close>, given the customer of the loader data.
\<close>

definition Orders :: "(jsstring \<Rightarrow> jsstring) \<Rightarrow> customer_orders \<Rightarrow> element" where
  "Orders t customer_data =
     Host (lit ''div'') (className ''orders'')
       [Host (lit ''h2'') []
          [Text (t (lit ''account.home.menu.orders'')), Text (lit '' ''),
           Host (lit ''small'') []
             [Text (lit ''(''), Text (numberOfOrders customer_data), Text (lit '')'')]],
        Host (lit ''br'') [] [],
        if length (nodes (orders customer_data)) \<noteq> 0
        then OrdersTable_element (orders customer_data)
        else EmptyOrders_element]"

section \<open>The collection template\<close>

text \<open>
  The render function \<open>CollectionTemplate\<close> passes to
  \<open>PaginatedResourceSection\<close>, lines 26 to 32.
\<close>

definition CollectionTemplate_children :: "product_item \<Rightarrow> nat \<Rightarrow> element" where
  "CollectionTemplate_children node index =
     ProductItem_element
       \<lparr>item_key = product_id node,
        product = node,
        item_loading = (if index < 8 then Some eager else None)\<rparr>"

text \<open>
  \<open>description && <p>...</p>\<close>: nothing is rendered for a missing or an empty
  description.
\<close>

definition CollectionTemplate ::
  "jsstring \<Rightarrow> jsstring option \<Rightarrow> (product_item, unit) connection \<Rightarrow> element" where
  "CollectionTemplate title description products =
     Host (lit ''div'') (className ''collection'')
       ([Host (lit ''h1'') [] [Text title]]
        @ (case description of
             None \<Rightarrow> []
           | Some d \<Rightarrow>
               if d = [] then []
               else [Host (lit ''p'') (className ''collection-description'') [Text d]])
        @ [PaginatedResourceSection_element products (lit ''products-grid'')])"

text \<open>
  Modelled from the spec: \<open>PaginatedResourceSection\<close> of
  \<open>~/components/sections/PaginatedResourceSection\<close>, which is not among the source
  files. The spec calls it a generic paginated-section renderer that renders a grid of
  items from a paginated connection; here it calls the render function on every node of
  the connection, in order, with the node and its index counted from 0.
\<close>

definition PaginatedResourceSection ::
  "('node, 'info) connection \<Rightarrow> ('node \<Rightarrow> nat \<Rightarrow> element) \<Rightarrow> element list" where
  "PaginatedResourceSection connection_prop children =
     map (\<lambda>(index, node). children node index) (enumerate 0 (nodes connection_prop))"

text \<open>
  \<open>ProductItem\<close>. \<open>useVariantUrl\<close> (of \<open>~/lib/variants\<close>) is a parameter.
  Reading \<open>selectedOptions\<close> of \<open>undefined\<close> throws a \<open>TypeError\<close>.
\<close>

definition ProductItem ::
  "(jsstring \<Rightarrow> selected_option list \<Rightarrow> jsstring) \<Rightarrow> product_item_props \<Rightarrow>
   render_error + element" where
  "ProductItem useVariantUrl props =
     (let variant = first_element (nodes (variants (product props))) in
      case variant of
        None \<Rightarrow> Inl TypeError
      | Some v \<Rightarrow>
          let variantUrl = useVariantUrl (handle (product props)) (selectedOptions v) in
          Inr (Link
            \<lparr>link_className = lit ''product-item'',
             link_key = product_id (product props),
             prefetch = lit ''intent'',
             link_to = variantUrl\<rparr>
            ((case featuredImage (product props) of
                None \<Rightarrow> []
              | Some img \<Rightarrow>
                  [Image
                     \<lparr>alt = (case image_altText img of
                               None \<Rightarrow> product_title (product props)
                             | Some a \<Rightarrow> if a \<noteq> [] then a else product_title (product props)),
                      aspectRatio = lit ''1/1'',
                      image_data = img,
                      image_loading = item_loading props,
                      sizes = lit ''(min-width: 45em) 400px, 100vw''\<rparr>])
             @ [Host (lit ''h4'') [] [Text (product_title (product props))],
                Host (lit ''small'') []
                  [Money (minVariantPrice (priceRange (product props)))]])))"

section \<open>Reading a tree\<close>

text \<open>
  The targets of the \<open>LocalizedLink\<close> elements of a tree and the \<open>Image\<close>
  elements of a tree, in document order.
\<close>

fun link_targets :: "element \<Rightarrow> jsstring list" where
  "link_targets (Host tag attrs children) = concat (map link_targets children)"
| "link_targets (Fragment children) = concat (map link_targets children)"
| "link_targets (LocalizedLink target children) =
     target # concat (map link_targets children)"
| "link_targets (PreviousLink children) = concat (map link_targets children)"
| "link_targets (NextLink children) = concat (map link_targets children)"
| "link_targets (Link props children) = concat (map link_targets children)"
| "link_targets e = []"

fun images :: "element \<Rightarrow> image_props list" where
  "images (Host tag attrs children) = concat (map images children)"
| "images (Fragment children) = concat (map images children)"
| "images (LocalizedLink target children) = concat (map images children)"
| "images (PreviousLink children) = concat (map images children)"
| "images (NextLink children) = concat (map images children)"
| "images (Link props children) = concat (map images children)"
| "images (Image props) = [props]"
| "images e = []"

text \<open>The children of an element that has children.\<close>

fun element_children :: "element \<Rightarrow> element list" where
  "element_children (Host tag attrs children) = children"
| "element_children (Fragment children) = children"
| "element_children (LocalizedLink target children) = children"
| "element_children (PreviousLink children) = children"
| "element_children (NextLink children) = children"
| "element_children (Link props children) = children"
| "element_children e = []"

section \<open>Concrete inputs\<close>

text \<open>
  A session that stores a token, a context around a remote answer, a path localizer and a
  pagination helper that asks for the first page: the inputs the theorems below are run on.
\<close>

definition example_session :: "jsstring \<rightharpoonup> jsval" where
  "example_session =
     [lit ''customerAccessToken'' \<mapsto>
        JObj [(lit ''accessToken'', JStr (lit ''token-1'')),
              (lit ''expiresAt'', JStr (lit ''2030-01-01T00:00:00Z''))]]"

definition example_context ::
  "(jsstring \<rightharpoonup> jsval) \<Rightarrow> (jsval + unit query_data) \<Rightarrow> (unit, unit) app_context" where
  "example_context stored answer =
     \<lparr>session = stored,
      storefront =
        \<lparr>query = (\<lambda>call. answer),
         i18n = \<lparr>country = lit ''US'', language = lit ''EN''\<rparr>\<rparr>,
      context_i18n = ()\<rparr>"

definition example_localizePath :: "jsstring \<Rightarrow> unit \<Rightarrow> jsstring" where
  "example_localizePath path locale = lit ''/en-us'' @ path"

definition example_getPaginationVariables :: "jsstring \<Rightarrow> nat \<Rightarrow> variables" where
  "example_getPaginationVariables request pageBy =
     [lit ''first'' \<mapsto> JNum (int pageBy), lit ''endCursor'' \<mapsto> JNull]"

text \<open>An order, a customer without orders, and a page of ten products.\<close>

definition example_order :: order_item where
  "example_order =
     \<lparr>currentTotalPrice = \<lparr>amount = lit ''19.99'', currencyCode = lit ''USD''\<rparr>,
      financialStatus = Some (lit ''PAID''),
      fulfillmentStatus = lit ''FULFILLED'',
      order_id = lit ''gid://shopify/Order/1'',
      lineItems = \<lparr>nodes = []\<rparr>,
      orderNumber = 1001,
      customerUrl = None,
      statusUrl = lit ''https://shop.example/orders/1/status'',
      processedAt = lit ''2023-07-01T10:00:00Z''\<rparr>"

definition example_toDateString :: "jsstring \<Rightarrow> jsstring" where
  "example_toDateString s = lit ''Sat Jul 01 2023''"

definition example_customer :: customer_orders where
  "example_customer =
     \<lparr>numberOfOrders = lit ''0'',
      orders = \<lparr>nodes = [],
                pageInfo = \<lparr>hasPreviousPage = False, hasNextPage = False, endCursor = None\<rparr>\<rparr>\<rparr>"

definition example_product :: "product_variant list \<Rightarrow> product_item" where
  "example_product vs =
     \<lparr>product_id = lit ''gid://shopify/Product/7'',
      handle = lit ''snowboard'',
      product_title = lit ''Snowboard'',
      featuredImage =
        Some \<lparr>image_id = Some (lit ''gid://shopify/ProductImage/3''), image_altText = None,
              image_url = lit ''https://cdn.example/snowboard.png'',
              image_width = Some 800, image_height = Some 800\<rparr>,
      priceRange =
        \<lparr>minVariantPrice = \<lparr>amount = lit ''100.0'', currencyCode = lit ''USD''\<rparr>,
         maxVariantPrice = \<lparr>amount = lit ''120.0'', currencyCode = lit ''USD''\<rparr>\<rparr>,
      variants = \<lparr>nodes = vs\<rparr>\<rparr>"

definition example_variant :: product_variant where
  "example_variant =
     \<lparr>selectedOptions = [\<lparr>option_name = lit ''Size'', option_value = lit ''154cm''\<rparr>]\<rparr>"

definition example_useVariantUrl :: "jsstring \<Rightarrow> selected_option list \<Rightarrow> jsstring" where
  "example_useVariantUrl h opts =
     lit ''/products/'' @ h @ lit ''?''
     @ concat (map (\<lambda>opt. option_name opt @ lit ''='' @ option_value opt) opts)"

definition example_products :: "(product_item, unit) connection" where
  "example_products = \<lparr>nodes = replicate 10 (example_product [example_variant]), pageInfo = ()\<rparr>"

section \<open>Serialisation\<close>


lemma json_error_data:
  "json (Error_data v) status =
     (case to_json v of
        Inl e \<Rightarrow> Inl e
      | Inr None \<Rightarrow> Inr (Json (Serialized (JsonObject [])) status)
      | Inr (Some j) \<Rightarrow> Inr (Json (Serialized (JsonObject [(lit ''error'', j)])) status))"
  by (simp add: json_def split: sum.split option.split)

section \<open>The loader of the orders route\<close>

lemma loader_without_token:
  "\<not> has_access_token context \<Longrightarrow>
   loader localizePath gpv request context =
     (Inr (redirect (localizePath (lit ''/account/login'') (context_i18n context))), [])"
  by (simp add: loader_def has_access_token_def)

lemma loader_with_token:
  "has_access_token context \<Longrightarrow>
   loader localizePath gpv request context =
     (case query (storefront context) (orders_query_call gpv request context) of
        Inl error \<Rightarrow> (loader_catch error, [orders_query_call gpv request context])
      | Inr data \<Rightarrow>
          (case customer data of
             None \<Rightarrow> (loader_catch (JError (lit ''Customer not found'')),
                      [orders_query_call gpv request context])
           | Some c \<Rightarrow> (json (Customer_data c) 200, [orders_query_call gpv request context])))"
  by (simp add: loader_def has_access_token_def orders_query_call_def Let_def
      split: sum.split option.split)

lemma example_has_token: "has_access_token (example_context example_session answer)"
  by (simp add: has_access_token_def example_context_def example_session_def session_get_def
      lit_def)

lemma example_query: "query (storefront (example_context stored answer)) call = answer"
  by (simp add: example_context_def)

text \<open>
  Claim C1. When the session stores nothing under \<open>customerAccessToken\<close>, or stores
  an object that has no \<open>accessToken\<close> property, the loader returns a redirect to
  \<open>localizePath('/account/login', context.i18n)\<close> and makes no call to
  \<open>storefront.query\<close>.
\<close>

theorem loader_redirects_without_token:
  assumes "session context (lit ''customerAccessToken'') = None \<or>
           (\<exists>kvs. session context (lit ''customerAccessToken'') = Some (JObj kvs) \<and>
                  map_of kvs (lit ''accessToken'') = None)"
  shows "loader localizePath gpv request context =
           (Inr (Redirect (localizePath (lit ''/account/login'') (context_i18n context))), [])"
proof -
  from assms have "\<not> has_access_token context"
    by (auto simp: has_access_token_def session_get_def)
  then show ?thesis
    by (simp add: loader_without_token redirect_def)
qed

text \<open>Both cases of C1 on a concrete context.\<close>

theorem loader_redirects_without_token_witness:
  "loader example_localizePath example_getPaginationVariables (lit ''https://shop.example/account/orders'')
     (example_context Map.empty (Inr \<lparr>customer = Some ()\<rparr>)) =
     (Inr (Redirect (lit ''/en-us/account/login'')), []) \<and>
   loader example_localizePath example_getPaginationVariables (lit ''https://shop.example/account/orders'')
     (example_context [lit ''customerAccessToken'' \<mapsto> JObj [(lit ''expiresAt'', JStr (lit ''2030''))]]
        (Inr \<lparr>customer = Some ()\<rparr>)) =
     (Inr (Redirect (lit ''/en-us/account/login'')), [])"
proof -
  have a: "session (example_context Map.empty (Inr \<lparr>customer = Some ()\<rparr>)) (lit ''customerAccessToken'') = None"
    by (simp add: example_context_def)
  have b: "\<exists>kvs. session (example_context [lit ''customerAccessToken'' \<mapsto> JObj [(lit ''expiresAt'', JStr (lit ''2030''))]]
        (Inr \<lparr>customer = Some ()\<rparr>)) (lit ''customerAccessToken'') = Some (JObj kvs) \<and>
                  map_of kvs (lit ''accessToken'') = None"
    by (simp add: example_context_def lit_def)
  show ?thesis
    using loader_redirects_without_token [OF disjI1 [OF a], where localizePath = example_localizePath
        and gpv = example_getPaginationVariables
        and request = "lit ''https://shop.example/account/orders''"]
      loader_redirects_without_token [OF disjI2 [OF b], where localizePath = example_localizePath
        and gpv = example_getPaginationVariables
        and request = "lit ''https://shop.example/account/orders''"]
    by (simp add: example_localizePath_def example_context_def lit_def)
qed




text \<open>
  Claim C3. For a request that passes the token gate, when the remote query answers
  without a customer the loader takes the path of its \<open>catch\<close> block with an
  \<open>Error\<close> whose message is \<open>Customer not found\<close>: the response has status 400
  and the body \<open>{error: 'Customer not found'}\<close>.
\<close>

theorem loader_customer_not_found:
  assumes "has_access_token context"
    and "query (storefront context) (orders_query_call gpv request context) = Inr data"
    and "customer data = None"
  shows "loader localizePath gpv request context =
           (loader_catch (JError (lit ''Customer not found'')),
            [orders_query_call gpv request context]) \<and>
         fst (loader localizePath gpv request context) =
           Inr (Json (Serialized
             (JsonObject [(lit ''error'', JsonString (lit ''Customer not found''))])) 400)"
  using assms by (simp add: loader_with_token loader_catch_def json_error_data)

text \<open>C3 on a remote answer \<open>{customer: null}\<close>.\<close>

theorem loader_customer_not_found_witness:
  "fst (loader example_localizePath example_getPaginationVariables (lit ''https://shop.example/account/orders'')
     (example_context example_session (Inr \<lparr>customer = None\<rparr>))) =
     Inr (Json (Serialized
       (JsonObject [(lit ''error'', JsonString (lit ''Customer not found''))])) 400)"
proof -
  have n: "customer \<lparr>customer = None :: unit option\<rparr> = None"
    by simp
  show ?thesis
    using loader_customer_not_found [OF example_has_token example_query n,
        where gpv = example_getPaginationVariables
        and request = "lit ''https://shop.example/account/orders''"
        and localizePath = example_localizePath]
    by blast
qed

text \<open>
  Claim C4. For a request that passes the token gate the loader makes exactly one call
  to \<open>storefront.query\<close>: the document is \<open>CUSTOMER_ORDERS_QUERY\<close>, the cache
  strategy is \<open>CacheNone\<close>, and the variables are the access token of the session, the
  country and the language of the storefront locale, and on top of them what
  \<open>getPaginationVariables\<close> returns for the request at \<open>pageBy: 20\<close>. Every
  pagination variable reaches the call with the value \<open>getPaginationVariables\<close> gave
  it, and a name it does not set keeps the value of the first three.
\<close>

theorem loader_issues_one_query:
  assumes "has_access_token context"
  shows "\<exists>vars. snd (loader localizePath gpv request context) =
             [(CUSTOMER_ORDERS_QUERY, \<lparr>variables = vars, cache = CacheNone\<rparr>)] \<and>
           vars =
             [lit ''customerAccessToken'' \<mapsto>
                opt_chain (session_get (session context) (lit ''customerAccessToken''))
                  (lit ''accessToken''),
              lit ''country'' \<mapsto> JStr (country (i18n (storefront context))),
              lit ''language'' \<mapsto> JStr (language (i18n (storefront context)))]
             ++ gpv request 20 \<and>
           (\<forall>name v. gpv request 20 name = Some v \<longrightarrow> vars name = Some v) \<and>
           (\<forall>name. gpv request 20 name = None \<longrightarrow>
              vars name =
                [lit ''customerAccessToken'' \<mapsto>
                   opt_chain (session_get (session context) (lit ''customerAccessToken''))
                     (lit ''accessToken''),
                 lit ''country'' \<mapsto> JStr (country (i18n (storefront context))),
                 lit ''language'' \<mapsto> JStr (language (i18n (storefront context)))] name)"
proof -
  have "snd (loader localizePath gpv request context) = [orders_query_call gpv request context]"
    using assms by (simp add: loader_with_token split: sum.split option.split)
  then show ?thesis
    by (simp add: orders_query_call_def loader_query_options_def map_add_def)
qed

text \<open>C4 on a request for the first page.\<close>

theorem loader_issues_one_query_witness:
  "\<exists>vars. snd (loader example_localizePath example_getPaginationVariables
       (lit ''https://shop.example/account/orders'')
       (example_context example_session (Inr \<lparr>customer = Some ()\<rparr>))) =
       [(CUSTOMER_ORDERS_QUERY, \<lparr>variables = vars, cache = CacheNone\<rparr>)] \<and>
     vars (lit ''first'') = Some (JNum 20) \<and>
     vars (lit ''endCursor'') = Some JNull \<and>
     vars (lit ''last'') = None \<and>
     vars (lit ''customerAccessToken'') = Some (JStr (lit ''token-1'')) \<and>
     vars (lit ''country'') = Some (JStr (lit ''US'')) \<and>
     vars (lit ''language'') = Some (JStr (lit ''EN''))"
proof -
  from loader_issues_one_query [OF example_has_token, where localizePath = example_localizePath
      and gpv = example_getPaginationVariables
      and request = "lit ''https://shop.example/account/orders''"
      and answer1 = "Inr \<lparr>customer = Some ()\<rparr>"]
  obtain vars where
    v: "snd (loader example_localizePath example_getPaginationVariables
          (lit ''https://shop.example/account/orders'')
          (example_context example_session (Inr \<lparr>customer = Some ()\<rparr>))) =
        [(CUSTOMER_ORDERS_QUERY, \<lparr>variables = vars, cache = CacheNone\<rparr>)]"
    and e: "vars =
        [lit ''customerAccessToken'' \<mapsto>
           opt_chain (session_get (session (example_context example_session (Inr \<lparr>customer = Some ()\<rparr>)))
             (lit ''customerAccessToken'')) (lit ''accessToken''),
         lit ''country'' \<mapsto> JStr (country (i18n (storefront (example_context example_session (Inr \<lparr>customer = Some ()\<rparr>))))),
         lit ''language'' \<mapsto> JStr (language (i18n (storefront (example_context example_session (Inr \<lparr>customer = Some ()\<rparr>)))))]
        ++ example_getPaginationVariables (lit ''https://shop.example/account/orders'') 20"
    by blast
  have "vars (lit ''first'') = Some (JNum 20)"
    and "vars (lit ''endCursor'') = Some JNull"
    and "vars (lit ''last'') = None"
    and "vars (lit ''customerAccessToken'') = Some (JStr (lit ''token-1''))"
    and "vars (lit ''country'') = Some (JStr (lit ''US''))"
    and "vars (lit ''language'') = Some (JStr (lit ''EN''))"
    unfolding e
    by (simp_all add: example_getPaginationVariables_def example_context_def example_session_def
        session_get_def map_add_def lit_def)
  with v show ?thesis by blast
qed

section \<open>The documents\<close>

text \<open>
  Claim C5. The page info of the orders connection in \<open>CUSTOMER_FRAGMENT\<close> requests
  \<open>hasPreviousPage\<close>, \<open>hasNextPage\<close>, \<open>hasNextPage\<close> a second time, and
  \<open>endCursor\<close>; \<open>startCursor\<close> is not among the requested fields.
\<close>

theorem customer_fragment_pageInfo_fields:
  "orders_pageInfo_fields =
     [lit ''hasPreviousPage'', lit ''hasNextPage'', lit ''hasNextPage'', lit ''endCursor''] \<and>
   lit ''startCursor'' \<notin> set orders_pageInfo_fields"
  by (simp add: orders_pageInfo_fields_def CustomerOrders_def leaf_def lit_def)

section \<open>The views\<close>

lemma btoa_latin1: "\<forall>c \<in> set s. c \<le> 255 \<Longrightarrow> btoa s = Inr (base64_encode s)"
  by (auto simp: btoa_def)

lemma btoa_Inr: "btoa s = Inr e \<Longrightarrow> e = base64_encode s"
  by (auto simp: btoa_def split: if_splits)

text \<open>
  Claim C9. Whenever \<open>OrderItem\<close> renders an order, the row holds exactly two links,
  in this order: one to \<open>/account/orders/\<close> followed by the order's identifier, and
  one to \<open>/account/orders/\<close> followed by the base64 encoding of the same identifier.
  It renders every order whose identifier holds no code unit above 255.
\<close>

theorem order_item_links:
  "(\<forall>row. OrderItem toDateString order = Inr row \<longrightarrow>
      link_targets row =
        [lit ''/account/orders/'' @ order_id order,
         lit ''/account/orders/'' @ base64_encode (order_id order)]) \<and>
   ((\<forall>c \<in> set (order_id order). c \<le> 255) \<longrightarrow>
      (\<exists>row. OrderItem toDateString order = Inr row))"
proof (intro conjI allI impI)
  fix row
  assume "OrderItem toDateString order = Inr row"
  then show "link_targets row =
        [lit ''/account/orders/'' @ order_id order,
         lit ''/account/orders/'' @ base64_encode (order_id order)]"
    by (auto simp: OrderItem_def text_child_def dest: btoa_Inr split: sum.splits option.splits)
next
  assume "\<forall>c \<in> set (order_id order). c \<le> 255"
  then show "\<exists>row. OrderItem toDateString order = Inr row"
    by (simp add: OrderItem_def btoa_latin1)
qed

text \<open>C9 on the order \<open>gid://shopify/Order/1\<close>.\<close>

theorem order_item_links_witness:
  "(\<exists>row. OrderItem example_toDateString example_order = Inr row \<and>
     link_targets row =
       [lit ''/account/orders/gid://shopify/Order/1'',
        lit ''/account/orders/Z2lkOi8vc2hvcGlmeS9PcmRlci8x''])"
proof -
  have b: "base64_encode (lit ''gid://shopify/Order/1'') = lit ''Z2lkOi8vc2hvcGlmeS9PcmRlci8x''"
    by code_simp
  have l: "\<forall>c \<in> set (order_id example_order). c \<le> 255"
    by (simp add: example_order_def lit_def)
  from order_item_links [of example_toDateString example_order] l
  obtain row where r: "OrderItem example_toDateString example_order = Inr row"
    by blast
  with order_item_links [of example_toDateString example_order]
  have "link_targets row =
        [lit ''/account/orders/'' @ order_id example_order,
         lit ''/account/orders/'' @ base64_encode (order_id example_order)]"
    by blast
  then have "link_targets row =
       [lit ''/account/orders/gid://shopify/Order/1'',
        lit ''/account/orders/Z2lkOi8vc2hvcGlmeS9PcmRlci8x'']"
    by (simp add: example_order_def b) (simp add: lit_def)
  with r show ?thesis by blast
qed

text \<open>
  Claim C7. For a customer whose orders connection has no nodes, \<open>Orders\<close> renders the
  heading, a line break and the \<open>EmptyOrders\<close> element; the \<open>OrdersTable\<close> element
  is not part of the result.
\<close>

theorem orders_empty_state:
  assumes "nodes (orders customer_data) = []"
  shows "Orders t customer_data =
           Host (lit ''div'') (className ''orders'')
             [Host (lit ''h2'') []
                [Text (t (lit ''account.home.menu.orders'')), Text (lit '' ''),
                 Host (lit ''small'') []
                   [Text (lit ''(''), Text (numberOfOrders customer_data), Text (lit '')'')]],
              Host (lit ''br'') [] [],
              EmptyOrders_element]"
  using assms by (simp add: Orders_def)

text \<open>C7 on a customer without orders.\<close>

theorem orders_empty_state_witness:
  "nodes (orders example_customer) = [] \<and>
   Orders (\<lambda>key. key) example_customer =
           Host (lit ''div'') (className ''orders'')
             [Host (lit ''h2'') []
                [Text (lit ''account.home.menu.orders''), Text (lit '' ''),
                 Host (lit ''small'') []
                   [Text (lit ''(''), Text (lit ''0''), Text (lit '')'')]],
              Host (lit ''br'') [] [],
              EmptyOrders_element]"
proof -
  have e: "nodes (orders example_customer) = []"
    by (simp add: example_customer_def)
  show ?thesis
    using e orders_empty_state [OF e, of "\<lambda>key. key"] by (simp add: example_customer_def)
qed

lemma PaginatedResourceSection_nth:
  "index < length (nodes c) \<Longrightarrow>
   PaginatedResourceSection c children ! index = children (nodes c ! index) index"
  by (simp add: PaginatedResourceSection_def nth_enumerate_eq)

lemma ProductItem_images:
  "ProductItem useVariantUrl props = Inr rendered \<Longrightarrow>
   map image_loading (images rendered) =
     (case featuredImage (product props) of None \<Rightarrow> [] | Some img \<Rightarrow> [item_loading props])"
  by (auto simp: ProductItem_def Let_def split: option.splits)

text \<open>
  Claim C6. The last child of the collection template is the paginated section over the
  products. The grid item the section renders at an index below the number of nodes is a
  \<open>ProductItem\<close> element whose \<open>loading\<close> prop is \<open>eager\<close> when the index is
  below 8 and is left out from index 8 on; an image that \<open>ProductItem\<close> renders for
  that item carries exactly that \<open>loading\<close> prop.
\<close>

theorem collection_grid_loading:
  assumes "index < length (nodes products)"
  shows "last (element_children (CollectionTemplate title description products)) =
           PaginatedResourceSection_element products (lit ''products-grid'') \<and>
         PaginatedResourceSection products CollectionTemplate_children ! index =
           ProductItem_element
             \<lparr>item_key = product_id (nodes products ! index),
              product = nodes products ! index,
              item_loading = (if index < 8 then Some eager else None)\<rparr> \<and>
         (\<forall>rendered.
            ProductItem useVariantUrl
              \<lparr>item_key = product_id (nodes products ! index),
               product = nodes products ! index,
               item_loading = (if index < 8 then Some eager else None)\<rparr> = Inr rendered \<longrightarrow>
            (\<forall>props \<in> set (images rendered).
               image_loading props = (if index < 8 then Some eager else None)))"
proof (intro conjI allI impI)
  show "last (element_children (CollectionTemplate title description products)) =
           PaginatedResourceSection_element products (lit ''products-grid'')"
    by (simp add: CollectionTemplate_def)
next
  show "PaginatedResourceSection products CollectionTemplate_children ! index =
           ProductItem_element
             \<lparr>item_key = product_id (nodes products ! index),
              product = nodes products ! index,
              item_loading = (if index < 8 then Some eager else None)\<rparr>"
    using assms by (simp add: PaginatedResourceSection_nth CollectionTemplate_children_def)
next
  fix rendered
  assume "ProductItem useVariantUrl
              \<lparr>item_key = product_id (nodes products ! index),
               product = nodes products ! index,
               item_loading = (if index < 8 then Some eager else None)\<rparr> = Inr rendered"
  from ProductItem_images [OF this]
  show "\<forall>props \<in> set (images rendered).
               image_loading props = (if index < 8 then Some eager else None)"
    by (cases "featuredImage (nodes products ! index)") (auto simp del: images.simps)
qed

text \<open>
  C6 at the indices 3 and 8 of a page of ten products, with the image each of the two
  items renders.
\<close>

theorem collection_grid_loading_witness:
  "3 < length (nodes example_products) \<and> 8 < length (nodes example_products) \<and>
   PaginatedResourceSection example_products CollectionTemplate_children ! 3 =
     ProductItem_element
       \<lparr>item_key = lit ''gid://shopify/Product/7'',
        product = example_product [example_variant],
        item_loading = Some eager\<rparr> \<and>
   PaginatedResourceSection example_products CollectionTemplate_children ! 8 =
     ProductItem_element
       \<lparr>item_key = lit ''gid://shopify/Product/7'',
        product = example_product [example_variant],
        item_loading = None\<rparr> \<and>
   (\<exists>rendered.
      ProductItem example_useVariantUrl
        \<lparr>item_key = lit ''gid://shopify/Product/7'',
         product = example_product [example_variant],
         item_loading = Some eager\<rparr> = Inr rendered \<and>
      map image_loading (images rendered) = [Some eager]) \<and>
   (\<exists>rendered.
      ProductItem example_useVariantUrl
        \<lparr>item_key = lit ''gid://shopify/Product/7'',
         product = example_product [example_variant],
         item_loading = None\<rparr> = Inr rendered \<and>
      map image_loading (images rendered) = [None])"
proof -
  have a: "3 < length (nodes example_products)" and b: "8 < length (nodes example_products)"
    by (simp_all add: example_products_def)
  have n: "nodes example_products ! 3 = example_product [example_variant]"
    "nodes example_products ! 8 = example_product [example_variant]"
    by (simp_all add: example_products_def)
  have k: "product_id (example_product [example_variant]) = lit ''gid://shopify/Product/7''"
    by (simp add: example_product_def)
  note A = collection_grid_loading [OF a, where useVariantUrl = example_useVariantUrl,
      unfolded n k]
  note B = collection_grid_loading [OF b, where useVariantUrl = example_useVariantUrl,
      unfolded n k]
  obtain r1 where r1: "ProductItem example_useVariantUrl
        \<lparr>item_key = lit ''gid://shopify/Product/7'',
         product = example_product [example_variant],
         item_loading = Some eager\<rparr> = Inr r1"
    and i1: "length (images r1) = 1"
    by (simp add: ProductItem_def first_element_def example_product_def)
  obtain r2 where r2: "ProductItem example_useVariantUrl
        \<lparr>item_key = lit ''gid://shopify/Product/7'',
         product = example_product [example_variant],
         item_loading = None\<rparr> = Inr r2"
    and i2: "length (images r2) = 1"
    by (simp add: ProductItem_def first_element_def example_product_def)
  from i1 obtain p1 where p1: "images r1 = [p1]"
    by (cases "images r1") auto
  from i2 obtain p2 where p2: "images r2 = [p2]"
    by (cases "images r2") auto
  from A r1 p1 have l1: "image_loading p1 = Some eager"
    by simp
  from B r2 p2 have l2: "image_loading p2 = None"
    by simp
  from A B a b r1 r2 p1 p2 l1 l2 show ?thesis
    by simp
qed

text \<open>
  Claim C10. \<open>ProductItem\<close> reads \<open>product.variants.nodes[0]\<close> and its
  \<open>selectedOptions\<close> without a guard. For a product without variant nodes the first
  element is \<open>undefined\<close> and the rendering throws a \<open>TypeError\<close>; for a product
  with a first variant the rendering succeeds and links to the URL built from the handle
  and that variant's selected options.
\<close>

theorem product_item_needs_variant:
  "(nodes (variants (product props)) = [] \<longrightarrow>
      first_element (nodes (variants (product props))) = None \<and>
      ProductItem useVariantUrl props = Inl TypeError) \<and>
   (\<forall>v rest. nodes (variants (product props)) = v # rest \<longrightarrow>
      (\<exists>children. ProductItem useVariantUrl props =
         Inr (Link \<lparr>link_className = lit ''product-item'',
                    link_key = product_id (product props),
                    prefetch = lit ''intent'',
                    link_to = useVariantUrl (handle (product props)) (selectedOptions v)\<rparr>
                children)))"
  by (simp add: ProductItem_def first_element_def Let_def)


text \<open>C10 on a product without variants and on one with a variant.\<close>

theorem product_item_needs_variant_witness:
  "ProductItem example_useVariantUrl
     \<lparr>item_key = lit ''k'', product = example_product [], item_loading = Some eager\<rparr> =
     Inl TypeError \<and>
   (\<exists>children. ProductItem example_useVariantUrl
     \<lparr>item_key = lit ''k'', product = example_product [example_variant],
      item_loading = Some eager\<rparr> =
     Inr (Link \<lparr>link_className = lit ''product-item'',
                link_key = lit ''gid://shopify/Product/7'',
                prefetch = lit ''intent'',
                link_to = lit ''/products/snowboard?Size=154cm''\<rparr> children))"
proof -
  have e: "nodes (variants (product \<lparr>item_key = lit ''k'', product = example_product [],
             item_loading = Some eager\<rparr>)) = []"
    by (simp add: example_product_def)
  have v: "nodes (variants (product \<lparr>item_key = lit ''k'',
             product = example_product [example_variant], item_loading = Some eager\<rparr>)) =
           example_variant # []"
    by (simp add: example_product_def)
  have u: "example_useVariantUrl (lit ''snowboard'') (selectedOptions example_variant) =
           lit ''/products/snowboard?Size=154cm''"
    by (simp add: example_useVariantUrl_def example_variant_def lit_def)
  from product_item_needs_variant [where useVariantUrl = example_useVariantUrl
      and props = "\<lparr>item_key = lit ''k'', product = example_product [], item_loading = Some eager\<rparr>"] e
  have 1: "ProductItem example_useVariantUrl
     \<lparr>item_key = lit ''k'', product = example_product [], item_loading = Some eager\<rparr> =
     Inl TypeError"
    by blast
  from product_item_needs_variant [where useVariantUrl = example_useVariantUrl
      and props = "\<lparr>item_key = lit ''k'', product = example_product [example_variant],
        item_loading = Some eager\<rparr>"] v
  have "\<exists>children. ProductItem example_useVariantUrl
     \<lparr>item_key = lit ''k'', product = example_product [example_variant],
      item_loading = Some eager\<rparr> =
     Inr (Link \<lparr>link_className = lit ''product-item'',
                link_key = product_id (product \<lparr>item_key = lit ''k'',
                  product = example_product [example_variant], item_loading = Some eager\<rparr>),
                prefetch = lit ''intent'',
                link_to = example_useVariantUrl
                  (handle (product \<lparr>item_key = lit ''k'',
                     product = example_product [example_variant], item_loading = Some eager\<rparr>))
                  (selectedOptions example_variant)\<rparr> children)"
    by blast
  then have 2: "\<exists>children. ProductItem example_useVariantUrl
     \<lparr>item_key = lit ''k'', product = example_product [example_variant],
      item_loading = Some eager\<rparr> =
     Inr (Link \<lparr>link_className = lit ''product-item'',
                link_key = lit ''gid://shopify/Product/7'',
                prefetch = lit ''intent'',
                link_to = lit ''/products/snowboard?Size=154cm''\<rparr> children)"
    using u by (simp add: example_product_def)
  from 1 2 show ?thesis by blast
qed

end
